theory Spec2Isabelle
  imports Complex_Main
begin

section \<open>python-accounting: Transaction validation, posting and contribution\<close>

text \<open>
  A shallow embedding of \<^verbatim>\<open>python_accounting/models/transaction.py\<close>.
  Decimal amounts are rationals (the arithmetic of the methods is exact on them),
  datetimes are instants on an integer time line (microseconds), database ids are
  naturals and a nullable column is an option. A method that mutates the transaction
  and may raise returns the transaction as it is when the call ends, together with the
  exception raised, if any. The queries of the source name their filters; the implicit
  scoping of a session to its entity belongs to the store and is not modelled.
\<close>

subsection \<open>Data model\<close>

datatype BalanceType = DEBIT | CREDIT

datatype Status = OPEN | ADJUSTING | CLOSED

text \<open>
  \<^verbatim>\<open>Transaction.TransactionType\<close> is built from the configuration; these are the
  members the transaction classes and the tests of the repository name.
\<close>

datatype TransactionType =
    CASH_SALE | CLIENT_INVOICE | CREDIT_NOTE | CASH_PURCHASE
  | SUPPLIER_BILL | SUPPLIER_PAYMENT | JOURNAL_ENTRY

record Tax =
  tax_id :: nat
  tax_code :: string
  tax_rate :: rat

text \<open>
  \<^verbatim>\<open>Account.AccountType\<close>: the members the transaction classes and the tests of
  the repository name.
\<close>

datatype AccountType =
    BANK | RECEIVABLE | PAYABLE | CONTROL | OPERATING_REVENUE | NON_OPERATING_REVENUE
  | OPERATING_EXPENSE | DIRECT_EXPENSE | OVERHEAD_EXPENSE

record Account =
  acc_id :: nat
  acc_type :: AccountType
  acc_currency_id :: nat

record ReportingPeriod =
  rp_calendar_year :: int
  rp_period_count :: nat
  rp_status :: Status
  rp_start :: int
  rp_end :: int

text \<open>
  A line item: \<open>li_tax\<close> is the \<^verbatim>\<open>tax\<close> relationship, and the column
  \<^verbatim>\<open>tax_id\<close> is its foreign key.
\<close>

record LineItem =
  li_id :: "nat option"
  li_account_id :: nat
  li_amount :: rat
  li_quantity :: rat
  li_tax :: "Tax option"
  li_tax_inclusive :: bool
  li_credited :: bool

definition li_tax_id :: "LineItem \<Rightarrow> nat option" where
  "li_tax_id l = map_option tax_id (li_tax l)"

record Ledger =
  ld_entity_id :: nat
  ld_transaction_id :: "nat option"
  ld_currency_id :: nat
  ld_post_account_id :: nat
  ld_entry_type :: BalanceType
  ld_amount :: rat

text \<open>
  \<open>type_history_deleted\<close> is
  \<^verbatim>\<open>inspect(self).attrs.transaction_type.history.deleted\<close>, the previous values of a
  changed \<^verbatim>\<open>transaction_type\<close>; \<open>session_index\<close> is the optional attribute read by
  \<^verbatim>\<open>getattr(self, "session_index", 1)\<close>.
\<close>

record Transaction =
  txn_id :: "nat option"
  entity_id :: nat
  transaction_date :: int
  transaction_no :: "string option"
  transaction_type :: TransactionType
  narration :: string
  reference :: "string option"
  main_account_amount :: rat
  credited :: bool
  compound :: bool
  currency_id :: nat
  account_id :: nat
  line_items :: "LineItem list"
  ledgers :: "Ledger list"
  type_history_deleted :: "TransactionType list"
  session_index :: "nat option"

text \<open>
  The session is the store the methods query: the account, reporting period,
  transaction (soft-deleted rows included) and ledger tables.
\<close>

record Session =
  accounts :: "Account list"
  periods :: "ReportingPeriod list"
  transactions :: "Transaction list"
  ledger_rows :: "Ledger list"

text \<open>
  \<^verbatim>\<open>config.transactions["types"][name]["transaction_no_prefix"]\<close>: the configuration
  is not among the sources, so the prefix table is a parameter.
\<close>

type_synonym Config = "TransactionType \<Rightarrow> string"

datatype error =
    PostedTransactionError string
  | ValueError string
  | TypeError
  | ClosedReportingPeriodError ReportingPeriod
  | AdjustingReportingPeriodError ReportingPeriod
  | InvalidTransactionDateError
  | InvalidTransactionTypeError
  | RedundantTransactionError LineItem
  | MissingLineItemError
  | MissingReportingPeriodError
  | InvalidLineItemAccountError
  | AttributeError

subsection \<open>Python truthiness\<close>

text \<open>
  An id is falsy when it is \<^verbatim>\<open>None\<close> or 0, a string when it is \<^verbatim>\<open>None\<close> or
  empty. A datetime and a mapped object are always truthy.
\<close>

definition truthy_id :: "nat option \<Rightarrow> bool" where
  "truthy_id i = (case i of None \<Rightarrow> False | Some n \<Rightarrow> n \<noteq> 0)"

definition truthy_str :: "string option \<Rightarrow> bool" where
  "truthy_str s = (case s of None \<Rightarrow> False | Some x \<Rightarrow> x \<noteq> [])"

subsection \<open>Properties of a transaction\<close>

definition is_posted :: "Transaction \<Rightarrow> bool" where
  "is_posted t = (length (ledgers t) > 0)"

text \<open>
  \<^verbatim>\<open>amount\<close>: the sum of the list comprehension over the line items on the side
  opposite to the transaction.
\<close>

definition amount :: "Transaction \<Rightarrow> rat" where
  "amount t =
     sum_list
       (map (\<lambda>l. li_amount l * li_quantity l
                 + (if truthy_id (li_tax_id l) \<and> \<not> li_tax_inclusive l
                    then (case li_tax l of
                            Some tx \<Rightarrow> li_amount l * li_quantity l * tax_rate tx / 100
                          | None \<Rightarrow> 0)
                    else 0))
            (filter (\<lambda>l. li_credited l \<noteq> credited t) (line_items t)))"

subsection \<open>The line-item hook\<close>

text \<open>
  \<^verbatim>\<open>validate_line_items\<close> runs when a line item is added to or removed from the
  collection. The subclass hook \<^verbatim>\<open>_validate_subclass_line_items\<close> is defined by the
  mixins, which are not among the sources: it is the parameter \<open>hook\<close>, \<open>None\<close> when
  the class has no such attribute, and otherwise a function that gives the exception it
  raises for a line item, if any. The result is the line item as the hook returns it.
\<close>

definition subclass_check :: "(LineItem \<Rightarrow> error option) option \<Rightarrow> LineItem \<Rightarrow> error option" where
  "subclass_check hook line_item = (case hook of None \<Rightarrow> None | Some h \<Rightarrow> h line_item)"

definition validate_line_items ::
  "(LineItem \<Rightarrow> error option) option \<Rightarrow> Transaction \<Rightarrow> LineItem \<Rightarrow> bool \<Rightarrow> error + LineItem" where
  "validate_line_items hook t line_item is_remove =
     (case subclass_check hook line_item of
        Some e \<Rightarrow> Inl e
      | None \<Rightarrow>
          if is_posted t then
            Inl (PostedTransactionError
                  (''Cannot '' @ (if is_remove then ''Remove'' else ''Add'')
                    @ '' Line Items from a Posted Transaction.''))
          else if li_id line_item = None then
            Inl (ValueError ''Line Item must be persisted to be added to the Transaction.'')
          else if \<not> compound t \<and> li_credited line_item = credited t then
            Inr (line_item\<lparr>li_credited := \<not> credited t\<rparr>)
          else Inr line_item)"

text \<open>
  \<^verbatim>\<open>validate_ledgers\<close>: ledgers are never added or removed by hand.
\<close>

definition validate_ledgers :: "Transaction \<Rightarrow> Ledger \<Rightarrow> bool \<Rightarrow> error + Ledger" where
  "validate_ledgers t ledger is_remove =
     Inl (ValueError (''Transaction ledgers cannot be ''
                       @ (if is_remove then ''Removed'' else ''Added'') @ '' manually.''))"

text \<open>
  \<^verbatim>\<open>transaction.line_items.add(line_item)\<close>: the hook runs first, and the line item
  it returns joins the collection (a set); when the hook raises, the collection is as
  before.
\<close>

definition attach ::
  "(LineItem \<Rightarrow> error option) option \<Rightarrow> Transaction \<Rightarrow> LineItem \<Rightarrow> Transaction \<times> error option" where
  "attach hook t line_item =
     (case validate_line_items hook t line_item False of
        Inl e \<Rightarrow> (t, Some e)
      | Inr l \<Rightarrow> (t\<lparr>line_items := List.insert l (line_items t)\<rparr>, None))"

text \<open>
  Modelled from the spec: the hook \<^verbatim>\<open>_validate_subclass_line_items\<close> of the trading
  transactions is defined by a mixin that is not among the sources. The spec has each
  variant supply its allowed account types, and an account's type constrain whether it
  may be a line-item account; the transaction classes set \<^verbatim>\<open>line_item_types\<close>, and
  \<^verbatim>\<open>InvalidLineItemAccountError\<close> is documented as: the line item account type must
  be one of those in the list. So the hook reads the type of the line item's account
  and raises when it is not among the allowed ones. A line item without an account has
  no \<^verbatim>\<open>account_type\<close> to read.
\<close>

definition validate_subclass_line_items ::
  "Session \<Rightarrow> AccountType list \<Rightarrow> LineItem \<Rightarrow> error option" where
  "validate_subclass_line_items session line_item_types line_item =
     (case find (\<lambda>a. acc_id a = li_account_id line_item) (accounts session) of
        None \<Rightarrow> Some AttributeError
      | Some account \<Rightarrow>
          if acc_type account \<in> set line_item_types then None
          else Some InvalidLineItemAccountError)"

text \<open>
  The allowed line-item account types that \<^verbatim>\<open>SupplierPayment.__init__\<close> and
  \<^verbatim>\<open>SellingMixin.__init__\<close> set.
\<close>

definition SupplierPayment_line_item_types :: "AccountType list" where
  "SupplierPayment_line_item_types = [BANK]"

definition SellingMixin_line_item_types :: "AccountType list" where
  "SellingMixin_line_item_types = [OPERATING_REVENUE]"

subsection \<open>Reporting periods\<close>

text \<open>
  Modelled from the spec: \<^verbatim>\<open>ReportingPeriod.get_period\<close> and
  \<^verbatim>\<open>ReportingPeriod.interval\<close> are not among the sources. The spec has
  \<^verbatim>\<open>get_period\<close> resolve a date to the period that covers it and fail when there is
  none, and \<^verbatim>\<open>interval()\<close> return the start and the end of the period, here the
  fields \<open>rp_start\<close> and \<open>rp_end\<close>.
\<close>

definition get_period :: "Session \<Rightarrow> int \<Rightarrow> error + ReportingPeriod" where
  "get_period session date =
     (case find (\<lambda>p. rp_start p \<le> date \<and> date \<le> rp_end p) (periods session) of
        None \<Rightarrow> Inl MissingReportingPeriodError
      | Some p \<Rightarrow> Inr p)"

subsection \<open>Transaction numbers\<close>

definition digit_char :: "nat \<Rightarrow> char" where
  "digit_char d = ''0123456789'' ! d"

function str_nat :: "nat \<Rightarrow> string" where
  "str_nat n = (if n < 10 then [digit_char n] else str_nat (n div 10) @ [digit_char (n mod 10)])"
  by pat_completeness auto
termination
  by (relation "measure (\<lambda>n. n)") auto

declare str_nat.simps [simp del]

text \<open>The format specification \<^verbatim>\<open>{n:0w}\<close> of a non-negative integer.\<close>

definition zero_pad :: "nat \<Rightarrow> nat \<Rightarrow> string" where
  "zero_pad w n = replicate (w - length (str_nat n)) CHR ''0'' @ str_nat n"

definition transaction_no_count :: "Session \<Rightarrow> Transaction \<Rightarrow> TransactionType \<Rightarrow> ReportingPeriod \<Rightarrow> nat" where
  "transaction_no_count session self ty reporting_period =
     length (filter (\<lambda>x. transaction_type x = ty
                        \<and> transaction_date x > rp_start reporting_period
                        \<and> entity_id x = entity_id self)
                    (transactions session))"

definition next_transaction_no ::
  "Config \<Rightarrow> Session \<Rightarrow> Transaction \<Rightarrow> TransactionType \<Rightarrow> ReportingPeriod \<Rightarrow> string" where
  "next_transaction_no prefix session self ty reporting_period =
     (let next_id = transaction_no_count session self ty reporting_period
                    + (case session_index self of None \<Rightarrow> 1 | Some i \<Rightarrow> i)
      in prefix ty @ zero_pad 2 (rp_period_count reporting_period) @ ''/'' @ zero_pad 4 next_id)"

subsection \<open>Validation\<close>

text \<open>
  \<^verbatim>\<open>validate\<close> in the order of the source: the check for a posted transaction, the
  main account, the reporting period, the assignment to \<^verbatim>\<open>currency_id\<close>, the status
  of the period, the date (a datetime is truthy, so the test is the comparison with the
  start of the period), the changed type, the transaction number, and the loop over the
  line items, which raises at the first one that posts to the main account.
\<close>

definition get_main_account :: "Session \<Rightarrow> Transaction \<Rightarrow> error + Account" where
  "get_main_account session t =
     (case find (\<lambda>a. acc_id a = account_id t) (accounts session) of
        None \<Rightarrow> Inl (ValueError ''The main Account is required'')
      | Some account \<Rightarrow> Inr account)"

definition assign_transaction_no ::
  "Config \<Rightarrow> Session \<Rightarrow> ReportingPeriod \<Rightarrow> Transaction \<Rightarrow> Transaction" where
  "assign_transaction_no prefix session reporting_period t =
     (if \<not> truthy_str (transaction_no t)
      then t\<lparr>transaction_no :=
               Some (next_transaction_no prefix session t (transaction_type t) reporting_period)\<rparr>
      else t)"

definition check_line_items :: "Transaction \<Rightarrow> error option" where
  "check_line_items t =
     (case find (\<lambda>l. li_account_id l = account_id t) (line_items t) of
        Some l \<Rightarrow> Some (RedundantTransactionError l)
      | None \<Rightarrow> None)"

definition validate :: "Config \<Rightarrow> Session \<Rightarrow> Transaction \<Rightarrow> Transaction \<times> error option" where
  "validate prefix session t =
     (if is_posted t then
        (t, Some (PostedTransactionError ''A Posted Transaction cannot be modified.''))
      else case get_main_account session t of
        Inl e \<Rightarrow> (t, Some e)
      | Inr account \<Rightarrow>
         (case get_period session (transaction_date t) of
            Inl e \<Rightarrow> (t, Some e)
          | Inr reporting_period \<Rightarrow>
             (let t1 = t\<lparr>currency_id := acc_currency_id account\<rparr> in
              if rp_status reporting_period = CLOSED then
                (t1, Some (ClosedReportingPeriodError reporting_period))
              else if rp_status reporting_period = ADJUSTING
                      \<and> transaction_type t1 \<noteq> JOURNAL_ENTRY then
                (t1, Some (AdjustingReportingPeriodError reporting_period))
              else if transaction_date t1 = rp_start reporting_period then
                (t1, Some InvalidTransactionDateError)
              else if truthy_id (txn_id t1) \<and> length (type_history_deleted t1) > 0 then
                (t1, Some InvalidTransactionTypeError)
              else
                (let t2 = assign_transaction_no prefix session reporting_period t1
                 in (t2, check_line_items t2)))))"

definition validate_delete :: "Transaction \<Rightarrow> Transaction \<times> error option" where
  "validate_delete t =
     (if is_posted t then
        (t, Some (PostedTransactionError ''A Posted Transaction cannot be deleted.''))
      else (t, None))"

subsection \<open>Contribution\<close>

text \<open>
  \<^verbatim>\<open>func.sum(Ledger.amount)\<close> over the filtered rows, read with \<^verbatim>\<open>scalar()\<close>: the
  sum of no rows is \<^verbatim>\<open>None\<close>.
\<close>

definition contribution_query :: "Session \<Rightarrow> Transaction \<Rightarrow> Account \<Rightarrow> Ledger list" where
  "contribution_query session t account =
     filter (\<lambda>l. ld_entity_id l = entity_id t
               \<and> ld_transaction_id l \<noteq> None \<and> ld_transaction_id l = txn_id t
               \<and> ld_currency_id l = currency_id t
               \<and> ld_post_account_id l = acc_id account)
            (ledger_rows session)"

definition scalar_sum :: "BalanceType \<Rightarrow> Ledger list \<Rightarrow> rat option" where
  "scalar_sum ty rows =
     (case filter (\<lambda>l. ld_entry_type l = ty) rows of
        [] \<Rightarrow> None
      | r # rs \<Rightarrow> Some (sum_list (map ld_amount (r # rs))))"

text \<open>
  The returned expression is \<^verbatim>\<open>debit or 0 - credit or 0\<close>. Subtraction binds tighter
  than \<^verbatim>\<open>or\<close>, so it is \<^verbatim>\<open>(debit or (0 - credit)) or 0\<close>: a truthy debit sum is
  returned as it is and the credit query is not run; otherwise \<^verbatim>\<open>0 - credit\<close> is
  computed, which raises \<^verbatim>\<open>TypeError\<close> when the credit sum is \<^verbatim>\<open>None\<close>.
\<close>

definition negated_credit :: "Ledger list \<Rightarrow> error + rat" where
  "negated_credit query =
     (case scalar_sum CREDIT query of
        None \<Rightarrow> Inl TypeError
      | Some credit \<Rightarrow> if 0 - credit \<noteq> 0 then Inr (0 - credit) else Inr 0)"

definition contribution :: "Session \<Rightarrow> Transaction \<Rightarrow> Account \<Rightarrow> error + rat" where
  "contribution session t account =
     (let query = contribution_query session t account
      in case scalar_sum DEBIT query of
           None \<Rightarrow> negated_credit query
         | Some debit \<Rightarrow> if debit \<noteq> 0 then Inr debit else negated_credit query)"

text \<open>
  The net amount posted to an account: the debit sum minus the credit sum, where the sum
  of no rows counts as zero.
\<close>

definition entry_sum :: "BalanceType \<Rightarrow> Ledger list \<Rightarrow> rat" where
  "entry_sum ty rows = sum_list (map ld_amount (filter (\<lambda>l. ld_entry_type l = ty) rows))"

definition net_contribution :: "Session \<Rightarrow> Transaction \<Rightarrow> Account \<Rightarrow> rat" where
  "net_contribution session t account =
     entry_sum DEBIT (contribution_query session t account)
       - entry_sum CREDIT (contribution_query session t account)"

subsection \<open>Posting\<close>

text \<open>
  Modelled from the spec: \<^verbatim>\<open>Ledger.post\<close> is not among the sources. The spec: for
  each line item it emits a matched pair of ledger entries, one on the line item's
  account and side, one on the main account and the opposite side, each carrying the
  line item's tax-inclusive amount where applicable.
\<close>

definition posted_amount :: "LineItem \<Rightarrow> rat" where
  "posted_amount l =
     li_amount l * li_quantity l
       + (case li_tax l of
            Some tx \<Rightarrow> if li_tax_inclusive l then 0
                       else li_amount l * li_quantity l * tax_rate tx / 100
          | None \<Rightarrow> 0)"

text \<open>Modelled from the spec: the opposite side of an entry of \<^verbatim>\<open>Ledger.post\<close>.\<close>

definition opposite :: "BalanceType \<Rightarrow> BalanceType" where
  "opposite ty = (case ty of DEBIT \<Rightarrow> CREDIT | CREDIT \<Rightarrow> DEBIT)"

text \<open>
  Modelled from the spec: the matched pair of entries that \<^verbatim>\<open>Ledger.post\<close> emits
  for one line item.
\<close>

definition ledger_pair :: "Transaction \<Rightarrow> LineItem \<Rightarrow> Ledger list" where
  "ledger_pair t l =
     (let side = (if li_credited l then CREDIT else DEBIT) in
      [\<lparr>ld_entity_id = entity_id t, ld_transaction_id = txn_id t,
        ld_currency_id = currency_id t, ld_post_account_id = li_account_id l,
        ld_entry_type = side, ld_amount = posted_amount l\<rparr>,
       \<lparr>ld_entity_id = entity_id t, ld_transaction_id = txn_id t,
        ld_currency_id = currency_id t, ld_post_account_id = account_id t,
        ld_entry_type = opposite side, ld_amount = posted_amount l\<rparr>])"

text \<open>
  Modelled from the spec: \<^verbatim>\<open>Ledger.post\<close>, which appends the pairs of all line
  items to the ledger table and to the ledgers of the transaction.
\<close>

definition Ledger_post :: "Session \<Rightarrow> Transaction \<Rightarrow> Session \<times> Transaction" where
  "Ledger_post session t =
     (let entries = concat (map (ledger_pair t) (line_items t))
      in (session\<lparr>ledger_rows := ledger_rows session @ entries\<rparr>,
          t\<lparr>ledgers := ledgers t @ entries\<rparr>))"

text \<open>
  \<^verbatim>\<open>post\<close>: the check for line items, then \<^verbatim>\<open>session.flush()\<close>, which writes
  pending rows to the store and changes none of the fields modelled here, then
  \<^verbatim>\<open>Ledger.post\<close>.
\<close>

definition post :: "Session \<Rightarrow> Transaction \<Rightarrow> (Session \<times> Transaction) \<times> error option" where
  "post session t =
     (if line_items t = [] then ((session, t), Some MissingLineItemError)
      else (Ledger_post session t, None))"

subsection \<open>The amount and the numbering as the spec words them\<close>

text \<open>
  The spec's \<^verbatim>\<open>amount\<close>: over the line items whose side differs from the
  transaction's, quantity times amount, plus the tax when the line item has a tax and is
  not tax inclusive. A line item has a tax when its \<^verbatim>\<open>tax_id\<close> is set; a stored
  tax has a primary key other than 0.
\<close>

definition has_tax :: "LineItem \<Rightarrow> bool" where
  "has_tax l = truthy_id (li_tax_id l)"

definition tax_amount :: "LineItem \<Rightarrow> rat" where
  "tax_amount l =
     (case li_tax l of
        Some tx \<Rightarrow> li_amount l * li_quantity l * tax_rate tx / 100
      | None \<Rightarrow> 0)"

fun amount_spec :: "bool \<Rightarrow> LineItem list \<Rightarrow> rat" where
  "amount_spec c [] = 0"
| "amount_spec c (l # ls) =
     (if li_credited l = c then amount_spec c ls
      else if has_tax l \<and> \<not> li_tax_inclusive l
           then li_quantity l * li_amount l + tax_amount l + amount_spec c ls
           else li_quantity l * li_amount l + amount_spec c ls)"

text \<open>
  The spec's sequence: a running counter for each entity, type and period, so the next
  number is one more than the count of the transactions of that entity and type dated
  within the period.
\<close>

definition period_sequence :: "Session \<Rightarrow> Transaction \<Rightarrow> ReportingPeriod \<Rightarrow> nat" where
  "period_sequence session t reporting_period =
     length (filter (\<lambda>x. transaction_type x = transaction_type t
                        \<and> entity_id x = entity_id t
                        \<and> rp_start reporting_period \<le> transaction_date x
                        \<and> transaction_date x \<le> rp_end reporting_period)
                    (transactions session)) + 1"

definition transaction_no_spec ::
  "Config \<Rightarrow> Session \<Rightarrow> Transaction \<Rightarrow> ReportingPeriod \<Rightarrow> string" where
  "transaction_no_spec prefix session t reporting_period =
     prefix (transaction_type t) @ zero_pad 2 (rp_period_count reporting_period)
       @ ''/'' @ zero_pad 4 (period_sequence session t reporting_period)"

subsection \<open>Example data\<close>

definition ex_prefix :: Config where
  "ex_prefix ty =
     (case ty of
        CASH_SALE \<Rightarrow> ''CS'' | CLIENT_INVOICE \<Rightarrow> ''IN'' | CREDIT_NOTE \<Rightarrow> ''CN''
      | CASH_PURCHASE \<Rightarrow> ''CP'' | SUPPLIER_BILL \<Rightarrow> ''BL'' | SUPPLIER_PAYMENT \<Rightarrow> ''PY''
      | JOURNAL_ENTRY \<Rightarrow> ''JN'')"

definition ex_bank :: Account where
  "ex_bank = \<lparr>acc_id = 1, acc_type = BANK, acc_currency_id = 7\<rparr>"

definition ex_revenue :: Account where
  "ex_revenue = \<lparr>acc_id = 2, acc_type = OPERATING_REVENUE, acc_currency_id = 7\<rparr>"

definition ex_other :: Account where
  "ex_other = \<lparr>acc_id = 3, acc_type = PAYABLE, acc_currency_id = 7\<rparr>"

text \<open>Two consecutive periods: the earlier one adjusting, the later one open.\<close>

definition ex_period1 :: ReportingPeriod where
  "ex_period1 = \<lparr>rp_calendar_year = 2024, rp_period_count = 1, rp_status = ADJUSTING,
                  rp_start = 1000, rp_end = 1999\<rparr>"

definition ex_period2 :: ReportingPeriod where
  "ex_period2 = \<lparr>rp_calendar_year = 2025, rp_period_count = 2, rp_status = OPEN,
                  rp_start = 2000, rp_end = 2999\<rparr>"

definition ex_closed :: ReportingPeriod where
  "ex_closed = \<lparr>rp_calendar_year = 2023, rp_period_count = 0, rp_status = CLOSED,
                 rp_start = 0, rp_end = 999\<rparr>"

definition ex_output_vat :: Tax where
  "ex_output_vat = \<lparr>tax_id = 1, tax_code = ''OTPT'', tax_rate = 10\<rparr>"

text \<open>The cash sale of the income statement test: 200 taxed at 10 percent.\<close>

definition ex_line_item :: LineItem where
  "ex_line_item = \<lparr>li_id = Some 1, li_account_id = 2, li_amount = 200, li_quantity = 1,
                    li_tax = Some ex_output_vat, li_tax_inclusive = False,
                    li_credited = False\<rparr>"

definition ex_cash_sale :: Transaction where
  "ex_cash_sale =
     \<lparr>txn_id = Some 1, entity_id = 1, transaction_date = 2500, transaction_no = None,
      transaction_type = CASH_SALE, narration = ''Test cash sale'', reference = None,
      main_account_amount = 0, credited = False, compound = False, currency_id = 0,
      account_id = 1, line_items = [], ledgers = [], type_history_deleted = [],
      session_index = None\<rparr>"

definition ex_sale_with_item :: Transaction where
  "ex_sale_with_item = ex_cash_sale\<lparr>line_items := [ex_line_item\<lparr>li_credited := True\<rparr>]\<rparr>"

definition ex_orphan_sale :: Transaction where
  "ex_orphan_sale = ex_cash_sale\<lparr>transaction_date := 500, account_id := 9\<rparr>"

definition ex_journal :: Transaction where
  "ex_journal =
     \<lparr>txn_id = Some 2, entity_id = 1, transaction_date = 1500, transaction_no = None,
      transaction_type = JOURNAL_ENTRY, narration = ''Test journal entry'', reference = None,
      main_account_amount = 0, credited = True, compound = False, currency_id = 0,
      account_id = 1, line_items = [], ledgers = [], type_history_deleted = [],
      session_index = None\<rparr>"

definition ex_numbered_journal :: Transaction where
  "ex_numbered_journal = ex_journal\<lparr>currency_id := 7, transaction_no := Some ''JN01/0002''\<rparr>"

definition ex_ledger :: "BalanceType \<Rightarrow> nat \<Rightarrow> rat \<Rightarrow> Ledger" where
  "ex_ledger ty account a =
     \<lparr>ld_entity_id = 1, ld_transaction_id = Some 1, ld_currency_id = 7,
      ld_post_account_id = account, ld_entry_type = ty, ld_amount = a\<rparr>"

definition ex_session :: Session where
  "ex_session =
     \<lparr>accounts = [ex_bank, ex_revenue, ex_other],
      periods = [ex_closed, ex_period1, ex_period2],
      transactions = [],
      ledger_rows = []\<rparr>"

text \<open>
  A posted compound journal entry whose ledger debits account 3 by 100 and credits it
  by 30, and credits the main account 1 by 70; account 2 is not touched.
\<close>

definition ex_rows :: "Ledger list" where
  "ex_rows = [ex_ledger DEBIT 3 100, ex_ledger CREDIT 3 30, ex_ledger CREDIT 1 70]"

definition ex_compound_journal :: Transaction where
  "ex_compound_journal =
     \<lparr>txn_id = Some 1, entity_id = 1, transaction_date = 2500,
      transaction_no = Some ''JN02/0001'', transaction_type = JOURNAL_ENTRY,
      narration = ''Test compound journal'', reference = None, main_account_amount = 70,
      credited = True, compound = True, currency_id = 7, account_id = 1,
      line_items = [], ledgers = ex_rows, type_history_deleted = [],
      session_index = None\<rparr>"

definition ex_ledger_session :: Session where
  "ex_ledger_session = ex_session\<lparr>ledger_rows := ex_rows\<rparr>"

text \<open>
  A posted supplier payment: its main account is the payable account 3, and it was paid
  from the bank account 1.
\<close>

definition ex_posted_payment :: Transaction where
  "ex_posted_payment =
     \<lparr>txn_id = Some 1, entity_id = 1, transaction_date = 2500,
      transaction_no = Some ''PY02/0001'', transaction_type = SUPPLIER_PAYMENT,
      narration = ''Test supplier payment'', reference = None, main_account_amount = 0,
      credited = False, compound = False, currency_id = 7, account_id = 3,
      line_items = [], ledgers = [ex_ledger DEBIT 3 50, ex_ledger CREDIT 1 50],
      type_history_deleted = [], session_index = None\<rparr>"

text \<open>The hook of a supplier payment in the example session.\<close>

definition ex_payment_hook :: "LineItem \<Rightarrow> error option" where
  "ex_payment_hook = validate_subclass_line_items ex_session SupplierPayment_line_item_types"

text \<open>A line item on the bank account 1 and one on the revenue account 2.\<close>

definition ex_bank_item :: LineItem where
  "ex_bank_item = \<lparr>li_id = Some 3, li_account_id = 1, li_amount = 50, li_quantity = 1,
                    li_tax = None, li_tax_inclusive = False, li_credited = True\<rparr>"

definition ex_plain_item :: LineItem where
  "ex_plain_item = \<lparr>li_id = Some 2, li_account_id = 2, li_amount = 50, li_quantity = 1,
                     li_tax = None, li_tax_inclusive = False, li_credited = False\<rparr>"

definition ex_unsaved_item :: LineItem where
  "ex_unsaved_item = ex_plain_item\<lparr>li_id := None\<rparr>"

text \<open>A session in which the later period already holds a journal entry.\<close>

definition ex_busy_session :: Session where
  "ex_busy_session = ex_session\<lparr>transactions := [ex_compound_journal]\<rparr>"

section \<open>Properties\<close>

subsection \<open>Auxiliary facts\<close>

lemma entry_sum_Nil: "entry_sum ty [] = 0"
  by (simp add: entry_sum_def)

lemma entry_sum_append: "entry_sum ty (xs @ ys) = entry_sum ty xs + entry_sum ty ys"
  by (simp add: entry_sum_def)

lemma entry_sum_ledger_pair:
  "entry_sum DEBIT (ledger_pair t l) = entry_sum CREDIT (ledger_pair t l)"
  by (simp add: entry_sum_def ledger_pair_def opposite_def Let_def)

lemma entry_sum_pairs:
  "entry_sum DEBIT (concat (map (ledger_pair t) ls))
     = entry_sum CREDIT (concat (map (ledger_pair t) ls))"
  by (induction ls) (simp_all add: entry_sum_Nil entry_sum_append entry_sum_ledger_pair)

lemma ledger_pair_not_Nil: "ledger_pair t l \<noteq> []"
  by (simp add: ledger_pair_def Let_def)

lemma amount_spec_eq:
  "amount_spec c ls =
     sum_list
       (map (\<lambda>l. li_amount l * li_quantity l
                 + (if truthy_id (li_tax_id l) \<and> \<not> li_tax_inclusive l
                    then (case li_tax l of
                            Some tx \<Rightarrow> li_amount l * li_quantity l * tax_rate tx / 100
                          | None \<Rightarrow> 0)
                    else 0))
            (filter (\<lambda>l. li_credited l \<noteq> c) ls))"
  by (induction ls) (auto simp: has_tax_def tax_amount_def mult.commute)

lemma transaction_no_count_currency [simp]:
  "transaction_no_count session (t\<lparr>currency_id := c\<rparr>) ty rp = transaction_no_count session t ty rp"
  by (simp add: transaction_no_count_def)

lemma next_transaction_no_currency [simp]:
  "next_transaction_no prefix session (t\<lparr>currency_id := c\<rparr>) ty rp
     = next_transaction_no prefix session t ty rp"
  by (simp add: next_transaction_no_def)

lemma str_nat_not_Nil: "str_nat n \<noteq> []"
  by (subst str_nat.simps) simp

lemma next_transaction_no_not_Nil: "next_transaction_no prefix session t ty rp \<noteq> []"
  by (simp add: next_transaction_no_def Let_def)

lemma validate_keeps_transaction_no:
  "truthy_str (transaction_no t) \<Longrightarrow> transaction_no (fst (validate prefix session t)) = transaction_no t"
  by (simp add: validate_def assign_transaction_no_def Let_def split: sum.splits)

lemma validate_success:
  assumes "validate prefix session t = (t', None)"
  obtains account rp where "\<not> is_posted t"
    and "get_main_account session t = Inr account"
    and "get_period session (transaction_date t) = Inr rp"
    and "t' = assign_transaction_no prefix session rp (t\<lparr>currency_id := acc_currency_id account\<rparr>)"
  using assms
  by (auto simp: validate_def Let_def split: if_splits sum.splits)

subsection \<open>Contribution\<close>

text \<open>
  Whenever the debit sum of the account is not zero, it is the result, whatever the
  credit rows are.
\<close>

lemma contribution_truthy_debit:
  assumes "scalar_sum DEBIT (contribution_query session t account) = Some debit"
    and "debit \<noteq> 0"
  shows "contribution session t account = Inr debit"
  using assms by (simp add: contribution_def)

text \<open>
  C1. The contribution of an account should be its debit sum minus its credit sum.
  For the journal entry that debits account 3 by 100 and credits it by 30 the net amount
  is 70, yet the method returns the debit sum 100: the credit sum is not subtracted.
  For account 2, which the transaction does not touch, the net amount is 0, yet the
  method raises \<^verbatim>\<open>TypeError\<close>. For the purely credited main account it returns the
  negative net amount.
\<close>

theorem contribution_ignores_credit:
  "contribution ex_ledger_session ex_compound_journal ex_other = Inr 100
   \<and> net_contribution ex_ledger_session ex_compound_journal ex_other = 70
   \<and> contribution ex_ledger_session ex_compound_journal ex_revenue = Inl TypeError
   \<and> net_contribution ex_ledger_session ex_compound_journal ex_revenue = 0
   \<and> contribution ex_ledger_session ex_compound_journal ex_bank = Inr (- 70)
   \<and> net_contribution ex_ledger_session ex_compound_journal ex_bank = - 70"
  by (simp add: contribution_def net_contribution_def contribution_query_def negated_credit_def
      scalar_sum_def entry_sum_def ex_ledger_session_def ex_compound_journal_def ex_rows_def
      ex_ledger_def ex_other_def ex_revenue_def ex_bank_def ex_session_def)

subsection \<open>Posting\<close>

text \<open>
  C2. Posting adds a balanced set of ledger entries: when the ledger entries of a
  transaction are balanced before (as they are for an unposted transaction, which has
  none), a successful \<^verbatim>\<open>post\<close> leaves the transaction posted, and the sum of its
  DEBIT entries equals the sum of its CREDIT entries.
\<close>

theorem post_balanced:
  assumes "entry_sum DEBIT (ledgers t) = entry_sum CREDIT (ledgers t)"
    and "post session t = ((session', t'), None)"
  shows "is_posted t' \<and> entry_sum DEBIT (ledgers t') = entry_sum CREDIT (ledgers t')"
proof -
  from assms(2) have items: "line_items t \<noteq> []"
    by (auto simp: post_def split: if_splits)
  with assms(2) have t': "t' = t\<lparr>ledgers := ledgers t @ concat (map (ledger_pair t) (line_items t))\<rparr>"
    by (simp add: post_def Ledger_post_def Let_def)
  from items obtain l ls where "line_items t = l # ls"
    by (cases "line_items t") auto
  then have "is_posted t'"
    using ledger_pair_not_Nil [of t l] by (simp add: t' is_posted_def)
  moreover have "entry_sum DEBIT (ledgers t') = entry_sum CREDIT (ledgers t')"
    by (simp add: t' entry_sum_append entry_sum_pairs assms(1))
  ultimately show ?thesis by simp
qed

theorem post_balanced_witness:
  "entry_sum DEBIT (ledgers ex_sale_with_item) = entry_sum CREDIT (ledgers ex_sale_with_item)
   \<and> snd (post ex_session ex_sale_with_item) = None
   \<and> is_posted (snd (fst (post ex_session ex_sale_with_item)))
   \<and> entry_sum DEBIT (ledgers (snd (fst (post ex_session ex_sale_with_item)))) = 220
   \<and> entry_sum CREDIT (ledgers (snd (fst (post ex_session ex_sale_with_item)))) = 220"
proof -
  have b: "entry_sum DEBIT (ledgers ex_sale_with_item) = entry_sum CREDIT (ledgers ex_sale_with_item)"
    by (simp add: ex_sale_with_item_def ex_cash_sale_def entry_sum_def)
  have e: "snd (post ex_session ex_sale_with_item) = None"
    by (simp add: post_def ex_sale_with_item_def ex_cash_sale_def)
  then have p: "post ex_session ex_sale_with_item
      = ((fst (fst (post ex_session ex_sale_with_item)),
          snd (fst (post ex_session ex_sale_with_item))), None)"
    by (simp add: prod_eq_iff)
  have d: "entry_sum DEBIT (ledgers (snd (fst (post ex_session ex_sale_with_item)))) = 220"
    by (simp add: post_def Ledger_post_def ledger_pair_def posted_amount_def opposite_def
        Let_def entry_sum_def ex_sale_with_item_def ex_cash_sale_def ex_line_item_def ex_output_vat_def)
  show ?thesis
    using b e d post_balanced [OF b p] by simp
qed

subsection \<open>Posted transactions are immutable\<close>

text \<open>
  C3. For a posted transaction (its ledgers are not empty), \<^verbatim>\<open>validate\<close> raises
  \<^verbatim>\<open>PostedTransactionError\<close> and \<^verbatim>\<open>validate_delete\<close> raises
  \<^verbatim>\<open>PostedTransactionError\<close>, and each leaves the transaction as it was.
\<close>

theorem posted_rejected:
  assumes "ledgers t \<noteq> []"
  shows "is_posted t
    \<and> validate prefix session t
        = (t, Some (PostedTransactionError ''A Posted Transaction cannot be modified.''))
    \<and> validate_delete t
        = (t, Some (PostedTransactionError ''A Posted Transaction cannot be deleted.''))"
  using assms by (simp add: is_posted_def validate_def validate_delete_def)

theorem posted_rejected_witness:
  "ledgers ex_posted_payment \<noteq> []
   \<and> is_posted ex_posted_payment
   \<and> validate ex_prefix ex_session ex_posted_payment
       = (ex_posted_payment,
          Some (PostedTransactionError ''A Posted Transaction cannot be modified.''))
   \<and> validate_delete ex_posted_payment
       = (ex_posted_payment,
          Some (PostedTransactionError ''A Posted Transaction cannot be deleted.''))"
proof -
  have p: "ledgers ex_posted_payment \<noteq> []"
    by (simp add: ex_posted_payment_def)
  show ?thesis
    using p posted_rejected [OF p, of ex_prefix ex_session] by simp
qed


subsection \<open>Attaching line items\<close>

text \<open>
  C4. For a transaction that is not compound, a line item attached through the hook
  is stored on the side opposite to the transaction: its \<^verbatim>\<open>credited\<close> flag is the
  negation of the transaction's. So when every line item attached before is on the
  opposite side, every line item is on the opposite side afterwards.
\<close>

theorem attach_opposite_side:
  assumes "\<not> compound t"
    and "attach hook t line_item = (t', None)"
  shows "line_items t' = List.insert (line_item\<lparr>li_credited := \<not> credited t\<rparr>) (line_items t)
    \<and> credited t' = credited t
    \<and> ((\<forall>l \<in> set (line_items t). li_credited l = (\<not> credited t))
         \<longrightarrow> (\<forall>l \<in> set (line_items t'). li_credited l = (\<not> credited t')))"
proof -
  from assms(2) obtain l where
    hook: "validate_line_items hook t line_item False = Inr l"
    and t': "t' = t\<lparr>line_items := List.insert l (line_items t)\<rparr>"
    by (auto simp: attach_def split: sum.splits)
  from hook assms(1) have "l = line_item\<lparr>li_credited := \<not> credited t\<rparr>"
    by (cases "li_credited line_item = credited t")
      (auto simp: validate_line_items_def split: option.splits if_splits)
  with t' show ?thesis by auto
qed

theorem attach_opposite_side_witness:
  "\<not> compound ex_cash_sale
   \<and> attach None ex_cash_sale ex_line_item = (ex_sale_with_item, None)
   \<and> line_items ex_cash_sale = []
   \<and> line_items ex_sale_with_item = [ex_line_item\<lparr>li_credited := True\<rparr>]
   \<and> credited ex_sale_with_item = False
   \<and> map li_credited (line_items ex_sale_with_item) = [True]"
proof -
  have c: "\<not> compound ex_cash_sale"
    by (simp add: ex_cash_sale_def)
  have a: "attach None ex_cash_sale ex_line_item = (ex_sale_with_item, None)"
    by (simp add: attach_def validate_line_items_def subclass_check_def is_posted_def
        ex_cash_sale_def ex_line_item_def ex_sale_with_item_def)
  have e: "line_items ex_cash_sale = []" "credited ex_cash_sale = False"
    by (simp_all add: ex_cash_sale_def)
  show ?thesis
    using c a e attach_opposite_side [OF c a]
    by simp
qed

text \<open>
  C8, as stated: attaching any line item to a posted transaction fails with
  \<^verbatim>\<open>PostedTransactionError\<close>. The subclass hook runs before the check for a posted
  transaction: a posted supplier payment, whose line items must be on bank accounts,
  rejects a line item on a revenue account with \<^verbatim>\<open>InvalidLineItemAccountError\<close>.
\<close>

theorem attach_posted_counterexample:
  "is_posted ex_posted_payment
   \<and> attach (Some ex_payment_hook) ex_posted_payment ex_plain_item
       = (ex_posted_payment, Some InvalidLineItemAccountError)"
  by (simp add: attach_def validate_line_items_def subclass_check_def is_posted_def
      ex_payment_hook_def validate_subclass_line_items_def SupplierPayment_line_item_types_def
      ex_session_def ex_bank_def ex_revenue_def ex_other_def ex_posted_payment_def
      ex_plain_item_def)

text \<open>
  C8, amended. Attaching a line item whose id is null fails, and attaching any line
  item to a posted transaction fails; the failure is a
  \<^verbatim>\<open>PostedTransactionError\<close> whenever the transaction is posted and the subclass hook,
  if there is one, accepts the line item. In each failure the transaction, and so its
  set of line items, is unchanged.
\<close>

theorem attach_rejected:
  "(li_id line_item = None \<longrightarrow> (\<exists>e. attach hook t line_item = (t, Some e)))
   \<and> (is_posted t \<longrightarrow> (\<exists>e. attach hook t line_item = (t, Some e)))
   \<and> (is_posted t \<and> subclass_check hook line_item = None \<longrightarrow>
        attach hook t line_item
          = (t, Some (PostedTransactionError ''Cannot Add Line Items from a Posted Transaction.'')))
   \<and> (snd (attach hook t line_item) \<noteq> None \<longrightarrow> fst (attach hook t line_item) = t)"
  by (cases "subclass_check hook line_item")
    (simp_all add: attach_def validate_line_items_def)

theorem attach_rejected_witness:
  "li_id ex_unsaved_item = None
   \<and> attach None ex_cash_sale ex_unsaved_item
       = (ex_cash_sale,
          Some (ValueError ''Line Item must be persisted to be added to the Transaction.''))
   \<and> is_posted ex_posted_payment
   \<and> subclass_check (Some ex_payment_hook) ex_bank_item = None
   \<and> attach (Some ex_payment_hook) ex_posted_payment ex_bank_item
       = (ex_posted_payment,
          Some (PostedTransactionError ''Cannot Add Line Items from a Posted Transaction.''))
   \<and> line_items (fst (attach (Some ex_payment_hook) ex_posted_payment ex_bank_item))
       = line_items ex_posted_payment"
proof -
  have u: "li_id ex_unsaved_item = None"
    by (simp add: ex_unsaved_item_def)
  have v: "attach None ex_cash_sale ex_unsaved_item
       = (ex_cash_sale,
          Some (ValueError ''Line Item must be persisted to be added to the Transaction.''))"
    by (simp add: attach_def validate_line_items_def subclass_check_def is_posted_def
        ex_cash_sale_def ex_unsaved_item_def)
  have p: "is_posted ex_posted_payment"
    by (simp add: is_posted_def ex_posted_payment_def)
  have h: "subclass_check (Some ex_payment_hook) ex_bank_item = None"
    by (simp add: subclass_check_def ex_payment_hook_def validate_subclass_line_items_def
        SupplierPayment_line_item_types_def ex_session_def ex_bank_def ex_bank_item_def)
  show ?thesis
    using u v p h attach_rejected [of ex_bank_item "Some ex_payment_hook" ex_posted_payment]
    by simp
qed

subsection \<open>The amount of a transaction\<close>

text \<open>
  C5. The \<^verbatim>\<open>amount\<close> of a transaction is the sum, over exactly the line items whose
  \<^verbatim>\<open>credited\<close> flag differs from the transaction's, of quantity times amount, plus
  amount times quantity times the tax rate over 100 when the line item has a tax and is
  not tax inclusive; a tax-inclusive or untaxed line item contributes quantity times
  amount only.
\<close>

theorem amount_is_spec: "amount t = amount_spec (credited t) (line_items t)"
  by (simp add: amount_def amount_spec_eq)

text \<open>The cash sale of 200 taxed at 10 percent has the amount 220.\<close>

theorem amount_is_spec_witness:
  "amount ex_sale_with_item = 220
   \<and> amount_spec (credited ex_sale_with_item) (line_items ex_sale_with_item) = 220"
proof -
  have "amount_spec (credited ex_sale_with_item) (line_items ex_sale_with_item) = 220"
    by (simp add: has_tax_def tax_amount_def truthy_id_def li_tax_id_def ex_sale_with_item_def
        ex_cash_sale_def ex_line_item_def ex_output_vat_def)
  then show ?thesis
    using amount_is_spec [of ex_sale_with_item] by simp
qed

subsection \<open>Validation against the reporting period\<close>

text \<open>
  C6, as stated: validating an unposted transaction dated in a closed period raises
  \<^verbatim>\<open>ClosedReportingPeriodError\<close>. The main account is resolved first, so a
  transaction whose main account does not exist raises \<^verbatim>\<open>ValueError\<close> instead.
\<close>

theorem closed_period_counterexample:
  "\<not> is_posted ex_orphan_sale
   \<and> get_period ex_session (transaction_date ex_orphan_sale) = Inr ex_closed
   \<and> rp_status ex_closed = CLOSED
   \<and> validate ex_prefix ex_session ex_orphan_sale
       = (ex_orphan_sale, Some (ValueError ''The main Account is required''))"
  by (simp add: validate_def get_main_account_def get_period_def is_posted_def
      ex_orphan_sale_def ex_cash_sale_def ex_session_def ex_closed_def ex_period1_def
      ex_period2_def ex_bank_def ex_revenue_def ex_other_def)

text \<open>
  C6, amended. For an unposted transaction whose main account resolves, \<^verbatim>\<open>validate\<close>
  raises \<^verbatim>\<open>ClosedReportingPeriodError\<close> when the period that owns the transaction
  date is CLOSED, and \<^verbatim>\<open>AdjustingReportingPeriodError\<close> when that period is ADJUSTING
  and the transaction is not a JOURNAL_ENTRY; a JOURNAL_ENTRY in an ADJUSTING period
  raises neither.
\<close>

theorem period_status_gate:
  assumes "\<not> is_posted t"
    and "get_main_account session t = Inr account"
    and "get_period session (transaction_date t) = Inr rp"
  shows "(rp_status rp = CLOSED \<longrightarrow>
            snd (validate prefix session t) = Some (ClosedReportingPeriodError rp))
    \<and> (rp_status rp = ADJUSTING \<and> transaction_type t \<noteq> JOURNAL_ENTRY \<longrightarrow>
            snd (validate prefix session t) = Some (AdjustingReportingPeriodError rp))
    \<and> (rp_status rp = ADJUSTING \<and> transaction_type t = JOURNAL_ENTRY \<longrightarrow>
            snd (validate prefix session t) \<noteq> Some (ClosedReportingPeriodError p)
          \<and> snd (validate prefix session t) \<noteq> Some (AdjustingReportingPeriodError p))"
  using assms
  by (simp add: validate_def Let_def check_line_items_def split: option.splits)

theorem period_status_gate_witness:
  "\<not> is_posted ex_cash_sale
   \<and> get_main_account ex_session ex_cash_sale = Inr ex_bank
   \<and> get_period ex_session (transaction_date (ex_cash_sale\<lparr>transaction_date := 500\<rparr>)) = Inr ex_closed
   \<and> rp_status ex_closed = CLOSED
   \<and> snd (validate ex_prefix ex_session (ex_cash_sale\<lparr>transaction_date := 500\<rparr>))
       = Some (ClosedReportingPeriodError ex_closed)
   \<and> get_period ex_session (transaction_date (ex_cash_sale\<lparr>transaction_date := 1500\<rparr>)) = Inr ex_period1
   \<and> rp_status ex_period1 = ADJUSTING
   \<and> snd (validate ex_prefix ex_session (ex_cash_sale\<lparr>transaction_date := 1500\<rparr>))
       = Some (AdjustingReportingPeriodError ex_period1)
   \<and> \<not> is_posted ex_journal
   \<and> get_main_account ex_session ex_journal = Inr ex_bank
   \<and> get_period ex_session (transaction_date ex_journal) = Inr ex_period1
   \<and> transaction_type ex_journal = JOURNAL_ENTRY
   \<and> snd (validate ex_prefix ex_session ex_journal) \<noteq> Some (ClosedReportingPeriodError ex_period1)
   \<and> snd (validate ex_prefix ex_session ex_journal) \<noteq> Some (AdjustingReportingPeriodError ex_period1)"
proof -
  have u: "\<not> is_posted (ex_cash_sale\<lparr>transaction_date := d\<rparr>)" for d
    by (simp add: is_posted_def ex_cash_sale_def)
  have a: "get_main_account ex_session (ex_cash_sale\<lparr>transaction_date := d\<rparr>) = Inr ex_bank" for d
    by (simp add: get_main_account_def ex_session_def ex_cash_sale_def ex_bank_def)
  have p0: "get_period ex_session (transaction_date (ex_cash_sale\<lparr>transaction_date := 500\<rparr>)) = Inr ex_closed"
    by (simp add: get_period_def ex_session_def ex_closed_def)
  have p1: "get_period ex_session (transaction_date (ex_cash_sale\<lparr>transaction_date := 1500\<rparr>)) = Inr ex_period1"
    by (simp add: get_period_def ex_session_def ex_closed_def ex_period1_def)
  have s0: "rp_status ex_closed = CLOSED" and s1: "rp_status ex_period1 = ADJUSTING"
    by (simp_all add: ex_closed_def ex_period1_def)
  have ty: "transaction_type (ex_cash_sale\<lparr>transaction_date := d\<rparr>) \<noteq> JOURNAL_ENTRY" for d
    by (simp add: ex_cash_sale_def)
  have uj: "\<not> is_posted ex_journal"
    by (simp add: is_posted_def ex_journal_def)
  have aj: "get_main_account ex_session ex_journal = Inr ex_bank"
    by (simp add: get_main_account_def ex_session_def ex_journal_def ex_bank_def)
  have pj: "get_period ex_session (transaction_date ex_journal) = Inr ex_period1"
    by (simp add: get_period_def ex_session_def ex_journal_def ex_closed_def ex_period1_def)
  have tj: "transaction_type ex_journal = JOURNAL_ENTRY"
    by (simp add: ex_journal_def)
  have u0: "\<not> is_posted ex_cash_sale" and a0: "get_main_account ex_session ex_cash_sale = Inr ex_bank"
    using u [of "transaction_date ex_cash_sale"] a [of "transaction_date ex_cash_sale"] by simp_all
  show ?thesis
    using u0 a0 p0 p1 s0 s1 uj aj pj tj
      period_status_gate [OF u a p0, of ex_prefix]
      period_status_gate [OF u a p1, of ex_prefix] ty [of 1500]
      period_status_gate [OF uj aj pj, of ex_prefix ex_period1]
    by simp
qed

text \<open>
  C7, as stated: validating an unposted transaction dated exactly at the start of its
  period raises \<^verbatim>\<open>InvalidTransactionDateError\<close>. The status of the period is
  checked first, so at the start of a closed period the error is
  \<^verbatim>\<open>ClosedReportingPeriodError\<close>.
\<close>

theorem period_start_counterexample:
  "\<not> is_posted (ex_cash_sale\<lparr>transaction_date := 0\<rparr>)
   \<and> get_period ex_session (transaction_date (ex_cash_sale\<lparr>transaction_date := 0\<rparr>)) = Inr ex_closed
   \<and> transaction_date (ex_cash_sale\<lparr>transaction_date := 0\<rparr>) = rp_start ex_closed
   \<and> snd (validate ex_prefix ex_session (ex_cash_sale\<lparr>transaction_date := 0\<rparr>))
       = Some (ClosedReportingPeriodError ex_closed)"
  by (simp add: validate_def get_main_account_def get_period_def is_posted_def
      ex_cash_sale_def ex_session_def ex_closed_def ex_bank_def)

text \<open>
  C7, amended. For an unposted transaction whose main account resolves and whose
  period passes the status check (it is not CLOSED, and it is not ADJUSTING unless the
  transaction is a JOURNAL_ENTRY), \<^verbatim>\<open>validate\<close> raises
  \<^verbatim>\<open>InvalidTransactionDateError\<close> when the transaction date is exactly the start of
  the period; at any other instant of the period this error is not raised.
\<close>

theorem period_start_rejected:
  assumes "\<not> is_posted t"
    and "get_main_account session t = Inr account"
    and "get_period session (transaction_date t) = Inr rp"
    and "rp_status rp = OPEN \<or> (rp_status rp = ADJUSTING \<and> transaction_type t = JOURNAL_ENTRY)"
  shows "(transaction_date t = rp_start rp \<longrightarrow>
            snd (validate prefix session t) = Some InvalidTransactionDateError)
    \<and> (transaction_date t \<noteq> rp_start rp \<longrightarrow>
            snd (validate prefix session t) \<noteq> Some InvalidTransactionDateError)"
  using assms
  by (auto simp: validate_def Let_def check_line_items_def split: option.splits)


theorem period_start_rejected_witness:
  "\<not> is_posted (ex_cash_sale\<lparr>transaction_date := 2000\<rparr>)
   \<and> get_main_account ex_session (ex_cash_sale\<lparr>transaction_date := 2000\<rparr>) = Inr ex_bank
   \<and> get_period ex_session (transaction_date (ex_cash_sale\<lparr>transaction_date := 2000\<rparr>)) = Inr ex_period2
   \<and> rp_status ex_period2 = OPEN
   \<and> transaction_date (ex_cash_sale\<lparr>transaction_date := 2000\<rparr>) = rp_start ex_period2
   \<and> snd (validate ex_prefix ex_session (ex_cash_sale\<lparr>transaction_date := 2000\<rparr>))
       = Some InvalidTransactionDateError
   \<and> get_period ex_session (transaction_date (ex_cash_sale\<lparr>transaction_date := 2001\<rparr>)) = Inr ex_period2
   \<and> transaction_date (ex_cash_sale\<lparr>transaction_date := 2001\<rparr>) \<noteq> rp_start ex_period2
   \<and> snd (validate ex_prefix ex_session (ex_cash_sale\<lparr>transaction_date := 2001\<rparr>))
       \<noteq> Some InvalidTransactionDateError"
proof -
  have u: "\<not> is_posted (ex_cash_sale\<lparr>transaction_date := d\<rparr>)" for d
    by (simp add: is_posted_def ex_cash_sale_def)
  have a: "get_main_account ex_session (ex_cash_sale\<lparr>transaction_date := d\<rparr>) = Inr ex_bank" for d
    by (simp add: get_main_account_def ex_session_def ex_cash_sale_def ex_bank_def)
  have p0: "get_period ex_session (transaction_date (ex_cash_sale\<lparr>transaction_date := 2000\<rparr>)) = Inr ex_period2"
    by (simp add: get_period_def ex_session_def ex_closed_def ex_period1_def ex_period2_def)
  have p1: "get_period ex_session (transaction_date (ex_cash_sale\<lparr>transaction_date := 2001\<rparr>)) = Inr ex_period2"
    by (simp add: get_period_def ex_session_def ex_closed_def ex_period1_def ex_period2_def)
  have s: "rp_status ex_period2 = OPEN" and b: "rp_start ex_period2 = 2000"
    by (simp_all add: ex_period2_def)
  have s': "rp_status ex_period2 = OPEN
      \<or> (rp_status ex_period2 = ADJUSTING
          \<and> transaction_type (ex_cash_sale\<lparr>transaction_date := d\<rparr>) = JOURNAL_ENTRY)" for d
    using s by simp
  show ?thesis
    using u a p0 p1 s b
      period_start_rejected [OF u a p0 s', of ex_prefix]
      period_start_rejected [OF u a p1 s', of ex_prefix]
    by simp
qed

subsection \<open>Transaction numbers\<close>

text \<open>
  When no transaction is dated after the end of the period or at its start, the count
  behind the number is the count of the period, and the sequence is the running counter
  of the period.
\<close>

lemma transaction_no_count_in_period:
  assumes "\<forall>x \<in> set (transactions session).
             transaction_date x \<le> rp_end rp \<and> transaction_date x \<noteq> rp_start rp"
  shows "transaction_no_count session t (transaction_type t) rp + 1 = period_sequence session t rp"
proof -
  have "filter (\<lambda>x. transaction_type x = transaction_type t
                    \<and> transaction_date x > rp_start rp \<and> entity_id x = entity_id t)
               (transactions session)
        = filter (\<lambda>x. transaction_type x = transaction_type t \<and> entity_id x = entity_id t
                    \<and> rp_start rp \<le> transaction_date x \<and> transaction_date x \<le> rp_end rp)
               (transactions session)"
    using assms by (intro filter_cong) auto
  then show ?thesis
    by (simp add: transaction_no_count_def period_sequence_def)
qed

text \<open>
  C9. The sequence in the transaction number should be a running counter for each
  entity, type and period. The count behind it filters on the start of the period and
  has no upper bound on the date, so a journal entry of the later period is counted for
  the earlier period too: with one journal entry in period 2 and none in period 1, the
  first journal entry of period 1 is numbered \<^verbatim>\<open>JN01/0002\<close>, where the counter of the
  period gives \<^verbatim>\<open>JN01/0001\<close>.
\<close>

theorem transaction_no_counts_later_period:
  "\<not> truthy_str (transaction_no ex_journal)
   \<and> get_period ex_busy_session (transaction_date ex_journal) = Inr ex_period1
   \<and> snd (validate ex_prefix ex_busy_session ex_journal) = None
   \<and> transaction_no (fst (validate ex_prefix ex_busy_session ex_journal)) = Some ''JN01/0002''
   \<and> period_sequence ex_busy_session ex_journal ex_period1 = 1
   \<and> transaction_no_spec ex_prefix ex_busy_session ex_journal ex_period1 = ''JN01/0001''"
  by (simp add: validate_def get_main_account_def get_period_def is_posted_def truthy_str_def
      truthy_id_def assign_transaction_no_def next_transaction_no_def transaction_no_count_def
      check_line_items_def transaction_no_spec_def period_sequence_def zero_pad_def
      str_nat.simps digit_char_def numeral_2_eq_2 numeral_3_eq_3 Let_def
      ex_journal_def ex_busy_session_def ex_session_def ex_compound_journal_def
      ex_closed_def ex_period1_def ex_period2_def ex_bank_def ex_prefix_def)

text \<open>
  The number a successful \<^verbatim>\<open>validate\<close> assigns, as the code computes it: the type's
  configured prefix, the period count of the owning period padded to two digits, a
  slash, and the count of \<^verbatim>\<open>_transaction_no\<close> plus the session index (1 by default)
  padded to four digits. A transaction that has a number keeps it, so a number once
  assigned is never assigned again.
\<close>

lemma validate_transaction_no:
  assumes "validate prefix session t = (t', None)"
  shows "\<exists>rp. get_period session (transaction_date t) = Inr rp
    \<and> (\<not> truthy_str (transaction_no t) \<longrightarrow>
          transaction_no t'
            = Some (prefix (transaction_type t) @ zero_pad 2 (rp_period_count rp) @ ''/''
                    @ zero_pad 4 (transaction_no_count session t (transaction_type t) rp
                                  + (case session_index t of None \<Rightarrow> 1 | Some i \<Rightarrow> i))))
    \<and> (truthy_str (transaction_no t) \<longrightarrow> transaction_no t' = transaction_no t)
    \<and> truthy_str (transaction_no t')
    \<and> transaction_no (fst (validate prefix' session' t')) = transaction_no t'"
proof -
  from assms obtain account rp where
    "\<not> is_posted t" and "get_main_account session t = Inr account"
    and p: "get_period session (transaction_date t) = Inr rp"
    and t': "t' = assign_transaction_no prefix session rp (t\<lparr>currency_id := acc_currency_id account\<rparr>)"
    by (rule validate_success)
  have set: "truthy_str (transaction_no t')"
    by (simp add: t' assign_transaction_no_def truthy_str_def next_transaction_no_not_Nil)
  have "\<not> truthy_str (transaction_no t) \<longrightarrow>
            transaction_no t'
              = Some (prefix (transaction_type t) @ zero_pad 2 (rp_period_count rp) @ ''/''
                      @ zero_pad 4 (transaction_no_count session t (transaction_type t) rp
                                    + (case session_index t of None \<Rightarrow> 1 | Some i \<Rightarrow> i)))"
    by (simp add: t' assign_transaction_no_def next_transaction_no_def Let_def)
  moreover have "truthy_str (transaction_no t) \<longrightarrow> transaction_no t' = transaction_no t"
    by (simp add: t' assign_transaction_no_def)
  ultimately show ?thesis
    using p set validate_keeps_transaction_no [OF set] by blast
qed

lemma validate_transaction_no_example:
  "validate ex_prefix ex_busy_session ex_journal = (ex_numbered_journal, None)
   \<and> get_period ex_busy_session (transaction_date ex_journal) = Inr ex_period1
   \<and> \<not> truthy_str (transaction_no ex_journal)
   \<and> transaction_no_count ex_busy_session ex_journal JOURNAL_ENTRY ex_period1 = 1
   \<and> transaction_no ex_numbered_journal = Some ''JN01/0002''
   \<and> transaction_no (fst (validate ex_prefix ex_session ex_numbered_journal)) = Some ''JN01/0002''"
proof -
  have c: "transaction_no_count ex_busy_session ex_journal JOURNAL_ENTRY ex_period1 = 1"
    by (simp add: transaction_no_count_def ex_busy_session_def ex_journal_def
        ex_compound_journal_def ex_period1_def)
  have p: "get_period ex_busy_session (transaction_date ex_journal) = Inr ex_period1"
    by (simp add: get_period_def ex_busy_session_def ex_session_def ex_journal_def
        ex_closed_def ex_period1_def)
  have a: "get_main_account ex_busy_session ex_journal = Inr ex_bank"
    by (simp add: get_main_account_def ex_busy_session_def ex_session_def ex_journal_def ex_bank_def)
  have n: "next_transaction_no ex_prefix ex_busy_session ex_journal JOURNAL_ENTRY ex_period1
             = ''JN01/0002''"
    by (simp add: next_transaction_no_def transaction_no_count_def zero_pad_def str_nat.simps
        digit_char_def numeral_2_eq_2 numeral_3_eq_3 ex_busy_session_def ex_journal_def
        ex_compound_journal_def ex_period1_def ex_prefix_def)
  have v: "validate ex_prefix ex_busy_session ex_journal = (ex_numbered_journal, None)"
    using a p n
    by (simp add: validate_def is_posted_def truthy_str_def truthy_id_def
        assign_transaction_no_def check_line_items_def Let_def ex_numbered_journal_def)
      (simp add: ex_journal_def ex_period1_def ex_bank_def)
  have u: "\<not> truthy_str (transaction_no ex_journal)"
    by (simp add: truthy_str_def ex_journal_def)
  have n': "transaction_no ex_numbered_journal = Some ''JN01/0002''"
    by (simp add: ex_numbered_journal_def)
  show ?thesis
    using v p u c n' validate_transaction_no [OF v, of ex_prefix ex_session]
    by simp
qed

subsection \<open>What a successful validation changes\<close>



end
